theory Spec2Isabelle
  imports Main
begin

unbundle bit_operations_syntax

section \<open>Taxon management of DendroPy: \<open>dendropy/dataobject/taxon.py\<close>\<close>

subsection \<open>Objects, references and the heap\<close>

text \<open>
  A \<open>Taxon\<close> is a Python object: it is compared by reference, it is shared between
  taxon sets, and \<open>taxon_bitmask\<close> writes the attribute \<open>clade_mask\<close> into it. The
  model therefore keeps an explicit heap. A reference is the position of the object in
  the heap; allocation appends, so a fresh object never aliases an old one.
\<close>

type_synonym ref = nat

text \<open>
  Modelled from the spec: \<open>base.IdTagged\<close> (\<open>dendropy/dataobject/base.py\<close> is absent).
  The spec gives every identity an opaque id and a display label; \<open>Taxon.__init__\<close>
  passes \<open>label\<close> and \<open>oid\<close> on to it, each of them possibly \<open>None\<close>. The attribute
  \<open>clade_mask\<close> does not exist on a new object (reading it raises \<open>AttributeError\<close>):
  that is \<open>None\<close> here.
\<close>

record Taxon =
  oid :: "string option"
  label :: "string option"
  clade_mask :: "int option"

type_synonym heap = "Taxon list"

definition Taxon_init :: "heap \<Rightarrow> string option \<Rightarrow> string option \<Rightarrow> ref \<times> heap" where
  "Taxon_init h lbl i = (length h, h @ [\<lparr>oid = i, label = lbl, clade_mask = None\<rparr>])"

text \<open>
  The exceptions of the module, one constructor for each \<open>raise\<close> (the message tells
  apart the \<open>KeyError\<close>s and the \<open>ValueError\<close>s). In the words of the spec,
  \<open>KeyError_immutable\<close> is ImmutableRegistryError, \<open>KeyError_label_defined\<close> is
  DuplicateLabelError, \<open>ValueError_not_found\<close> is NotFoundError,
  \<open>Exception_need_selector\<close> is InvalidQueryError and \<open>TypeError_arity\<close> is
  ConstructionArityError.
\<close>

datatype error =
    TypeError_arity
  | ValueError_cannot_convert
  | ValueError_not_found
  | ValueError_remove
  | KeyError_immutable
  | KeyError_label_defined
  | Exception_need_selector

subsection \<open>The ordered set underneath\<close>

text \<open>
  Modelled from the spec: \<open>containers.OrderedSet\<close> (\<open>dendropy/utility/containers.py\<close>
  is absent). The spec describes an ordered, duplicate-free sequence of references with
  set semantics over references; \<open>TaxonSet\<close> uses it as a Python list (\<open>len\<close>,
  \<open>index\<close> raising \<open>ValueError\<close>, \<open>remove\<close>, iteration by position) with an \<open>add\<close>
  that appends a reference only when it is not yet a member.
\<close>

definition add :: "ref list \<Rightarrow> ref \<Rightarrow> ref list" where
  "add xs x = (if x \<in> set xs then xs else xs @ [x])"

definition OrderedSet_init :: "ref list \<Rightarrow> ref list" where
  "OrderedSet_init xs = foldl add [] xs"

text \<open>\<open>list.index\<close>: the first position of the reference, \<open>None\<close> for \<open>ValueError\<close>.\<close>

fun index :: "ref list \<Rightarrow> ref \<Rightarrow> nat option" where
  "index [] x = None"
| "index (y # ys) x = (if y = x then Some 0 else map_option Suc (index ys x))"

text \<open>\<open>list.remove\<close>: drops the first occurrence, \<open>ValueError\<close> when there is none.\<close>

definition remove :: "ref list \<Rightarrow> ref \<Rightarrow> error + ref list" where
  "remove xs x = (if x \<in> set xs then Inr (remove1 x xs) else Inl ValueError_remove)"

subsection \<open>\<open>TaxonSet\<close>\<close>

record TaxonSet =
  items :: "ref list"
  set_oid :: "string option"
  set_label :: "string option"
  is_mutable :: bool

text \<open>The values that the iterable given to the constructor may hold.\<close>

datatype pyval = PyTaxon ref | PyStr string | PyOther

fun to_taxon :: "heap \<Rightarrow> pyval \<Rightarrow> (error + ref) \<times> heap" where
  "to_taxon h (PyTaxon s) = (Inr s, h)"
| "to_taxon h (PyStr s) = (case Taxon_init h (Some s) None of (t, h') \<Rightarrow> (Inr t, h'))"
| "to_taxon h PyOther = (Inl ValueError_cannot_convert, h)"

text \<open>The list comprehension \<open>[TaxonSet._to_taxon(i) for i in args[0]]\<close>.\<close>

fun to_taxon_all :: "heap \<Rightarrow> pyval list \<Rightarrow> (error + ref list) \<times> heap" where
  "to_taxon_all h [] = (Inr [], h)"
| "to_taxon_all h (v # vs) =
     (case to_taxon h v of
        (Inl e, h') \<Rightarrow> (Inl e, h')
      | (Inr t, h') \<Rightarrow>
          (case to_taxon_all h' vs of
             (Inl e, h'') \<Rightarrow> (Inl e, h'')
           | (Inr ts, h'') \<Rightarrow> (Inr (t # ts), h'')))"

text \<open>
  \<open>TaxonSet.__init__(self, *args, **kwargs)\<close>: \<open>args\<close> is the list of positional
  arguments, each an iterable; the keyword arguments are \<open>None\<close> when not given.
\<close>

record init_kwargs =
  kw_oid :: "string option"
  kw_label :: "string option"
  kw_is_mutable :: "bool option"

definition TaxonSet_init ::
  "heap \<Rightarrow> pyval list list \<Rightarrow> init_kwargs \<Rightarrow> (error + TaxonSet) \<times> heap" where
  "TaxonSet_init h args kwargs =
     (let la = length args;
          mk = (\<lambda>xs. \<lparr>items = xs, set_oid = kw_oid kwargs, set_label = kw_label kwargs,
                      is_mutable = (case kw_is_mutable kwargs of None \<Rightarrow> True | Some b \<Rightarrow> b)\<rparr>)
      in if la > 0 then
           if la > 1 then (Inl TypeError_arity, h)
           else (case to_taxon_all h (args ! 0) of
                   (Inl e, h') \<Rightarrow> (Inl e, h')
                 | (Inr ts, h') \<Rightarrow> (Inr (mk (OrderedSet_init ts)), h'))
         else (Inr (mk (OrderedSet_init [])), h))"

definition no_kwargs :: init_kwargs where
  "no_kwargs = \<lparr>kw_oid = None, kw_label = None, kw_is_mutable = None\<rparr>"

definition lock :: "TaxonSet \<Rightarrow> TaxonSet" where
  "lock self = self\<lparr>is_mutable := False\<rparr>"

definition unlock :: "TaxonSet \<Rightarrow> TaxonSet" where
  "unlock self = self\<lparr>is_mutable := True\<rparr>"

definition get_is_locked :: "TaxonSet \<Rightarrow> bool" where
  "get_is_locked self = is_mutable self"

definition set_is_locked :: "TaxonSet \<Rightarrow> bool \<Rightarrow> TaxonSet" where
  "set_is_locked self v = self\<lparr>is_mutable := v\<rparr>"

subsection \<open>Lookup and mutation\<close>

text \<open>
  A keyword argument of \<open>get_taxon\<close> and \<open>require_taxon\<close> is \<open>None\<close> when the key is
  not in \<open>kwargs\<close>, and \<open>Some v\<close> when it was given with the value \<open>v\<close> (which may be
  Python's \<open>None\<close>). \<open>kwargs.get(key, None)\<close> is \<open>kwargs_get\<close>.
\<close>

definition kwargs_get :: "string option option \<Rightarrow> string option" where
  "kwargs_get k = (case k of None \<Rightarrow> None | Some v \<Rightarrow> v)"

definition get_taxon ::
  "heap \<Rightarrow> TaxonSet \<Rightarrow> string option option \<Rightarrow> string option option \<Rightarrow> error + ref option" where
  "get_taxon h self oid_kw label_kw =
     (if oid_kw = None \<and> label_kw = None then Inl Exception_need_selector
      else
        (let i = kwargs_get oid_kw; lbl = kwargs_get label_kw
         in Inr (find (\<lambda>taxon. (i \<noteq> None \<and> oid (h ! taxon) = i)
                              \<or> (lbl \<noteq> None \<and> label (h ! taxon) = lbl))
                      (items self))))"

definition require_taxon ::
  "heap \<Rightarrow> TaxonSet \<Rightarrow> string option option \<Rightarrow> string option option
     \<Rightarrow> (error + ref) \<times> heap \<times> TaxonSet" where
  "require_taxon h self oid_kw label_kw =
     (case get_taxon h self oid_kw label_kw of
        Inl e \<Rightarrow> (Inl e, h, self)
      | Inr (Some taxon) \<Rightarrow> (Inr taxon, h, self)
      | Inr None \<Rightarrow>
          if is_mutable self then
            (case Taxon_init h (kwargs_get label_kw) (kwargs_get oid_kw) of
               (taxon, h') \<Rightarrow> (Inr taxon, h', self\<lparr>items := add (items self) taxon\<rparr>))
          else (Inl KeyError_immutable, h, self))"

definition add_taxon :: "TaxonSet \<Rightarrow> ref \<Rightarrow> (error + unit) \<times> TaxonSet" where
  "add_taxon self taxon =
     (if \<not> is_mutable self then (Inl KeyError_immutable, self)
      else (Inr (), self\<lparr>items := add (items self) taxon\<rparr>))"

definition new_taxon ::
  "heap \<Rightarrow> TaxonSet \<Rightarrow> string option \<Rightarrow> string option \<Rightarrow> bool
     \<Rightarrow> (error + ref) \<times> heap \<times> TaxonSet" where
  "new_taxon h self lbl i error_if_label_exists =
     (if \<not> is_mutable self then (Inl KeyError_immutable, h, self)
      else
        (case (if error_if_label_exists then get_taxon h self None (Some lbl) else Inr None) of
           Inl e \<Rightarrow> (Inl e, h, self)
         | Inr (Some _) \<Rightarrow> (Inl KeyError_label_defined, h, self)
         | Inr None \<Rightarrow>
             (case Taxon_init h lbl i of
                (taxon, h') \<Rightarrow> (Inr taxon, h', self\<lparr>items := add (items self) taxon\<rparr>))))"

text \<open>
  \<open>clear\<close> is \<open>for t in self: self.remove(t)\<close>. The iterator of a Python list keeps a
  position \<open>i\<close>: each round reads \<open>self[i]\<close> from the list as it is then, moves to
  \<open>i + 1\<close> and runs the body, and the loop ends once \<open>i\<close> is no longer below the
  current length. The body removes from the very list that is being iterated.
\<close>

function clear_loop :: "nat \<Rightarrow> ref list \<Rightarrow> (error + unit) \<times> ref list" where
  "clear_loop i xs =
     (if i < length xs then
        (case remove xs (xs ! i) of
           Inl e \<Rightarrow> (Inl e, xs)
         | Inr xs' \<Rightarrow> clear_loop (Suc i) xs')
      else (Inr (), xs))"
  by pat_completeness auto
termination
proof (relation "measure (\<lambda>(i, xs). length xs - i)")
  show "wf (measure (\<lambda>(i, xs). length xs - i))"
    by simp
next
  fix i :: nat and xs xs' :: "ref list"
  assume "i < length xs" and "remove xs (xs ! i) = Inr xs'"
  then have "length xs' = length xs - 1"
    by (auto simp: remove_def length_remove1 split: if_splits)
  with \<open>i < length xs\<close>
  show "((Suc i, xs'), (i, xs)) \<in> measure (\<lambda>(i, xs). length xs - i)"
    by simp
qed

declare clear_loop.simps [simp del]

definition clear :: "TaxonSet \<Rightarrow> (error + unit) \<times> TaxonSet" where
  "clear self = (case clear_loop 0 (items self) of (r, xs) \<Rightarrow> (r, self\<lparr>items := xs\<rparr>))"

subsection \<open>Split bitmasks\<close>

text \<open>Python integers are unbounded: \<open>int\<close>, with \<open>1 << n\<close> as \<open>push_bit n 1\<close>.\<close>

definition all_taxa_bitmask :: "TaxonSet \<Rightarrow> int" where
  "all_taxa_bitmask self = (let b = push_bit (length (items self)) 1 in b - 1)"

definition complement_split_bitmask :: "TaxonSet \<Rightarrow> int \<Rightarrow> int" where
  "complement_split_bitmask self split = (NOT split) AND all_taxa_bitmask self"

text \<open>
  \<open>taxon_bitmask\<close>: the cached \<open>clade_mask\<close> when the object has one; otherwise the
  position in the set decides, and the mask is stored in the object.
\<close>

definition taxon_bitmask :: "heap \<Rightarrow> TaxonSet \<Rightarrow> ref \<Rightarrow> (error + int) \<times> heap" where
  "taxon_bitmask h self taxon =
     (case clade_mask (h ! taxon) of
        Some m \<Rightarrow> (Inr m, h)
      | None \<Rightarrow>
          (case index (items self) taxon of
             Some i \<Rightarrow>
               (let m = push_bit i 1
                in (Inr m, h[taxon := (h ! taxon)\<lparr>clade_mask := Some m\<rparr>]))
           | None \<Rightarrow> (Inl ValueError_not_found, h)))"

subsection \<open>Concrete states used below\<close>

text \<open>
  The heap and the sets of a short session: \<open>TaxonSet(["A", "B"])\<close> on an empty heap
  gives \<open>ts_AB\<close> over \<open>heap_AB\<close>; asking that set for the bitmask of \<open>B\<close> leaves
  \<open>heap_AB_cached\<close>; \<open>ts_empty\<close> is a new \<open>TaxonSet()\<close>, and \<open>ts_B\<close> is that set
  after \<open>add_taxon(B)\<close>. \<open>three_taxa\<close> is a set of three members.
\<close>

definition heap_AB :: heap where
  "heap_AB = [\<lparr>oid = None, label = Some ''A'', clade_mask = None\<rparr>,
              \<lparr>oid = None, label = Some ''B'', clade_mask = None\<rparr>]"

definition heap_AB_cached :: heap where
  "heap_AB_cached = [\<lparr>oid = None, label = Some ''A'', clade_mask = None\<rparr>,
                     \<lparr>oid = None, label = Some ''B'', clade_mask = Some 2\<rparr>]"

definition ts_AB :: TaxonSet where
  "ts_AB = \<lparr>items = [0, 1], set_oid = None, set_label = None, is_mutable = True\<rparr>"

definition ts_empty :: TaxonSet where
  "ts_empty = \<lparr>items = [], set_oid = None, set_label = None, is_mutable = True\<rparr>"

definition ts_B :: TaxonSet where
  "ts_B = \<lparr>items = [1], set_oid = None, set_label = None, is_mutable = True\<rparr>"

definition three_taxa :: TaxonSet where
  "three_taxa = \<lparr>items = [0, 1, 2], set_oid = None, set_label = None, is_mutable = True\<rparr>"

text \<open>
  \<open>TaxonSet(["A", "B", "C"])\<close> on any heap \<open>h\<close>: three new objects behind the objects of
  \<open>h\<close>, and the set of their references.
\<close>

definition heap_ABC :: "heap \<Rightarrow> heap" where
  "heap_ABC h = h @ [\<lparr>oid = None, label = Some ''A'', clade_mask = None\<rparr>,
                     \<lparr>oid = None, label = Some ''B'', clade_mask = None\<rparr>,
                     \<lparr>oid = None, label = Some ''C'', clade_mask = None\<rparr>]"

definition ts_ABC :: "heap \<Rightarrow> TaxonSet" where
  "ts_ABC h = \<lparr>items = [length h, length h + 1, length h + 2],
               set_oid = None, set_label = None, is_mutable = True\<rparr>"

section \<open>Properties\<close>

subsection \<open>The ordered set stays duplicate-free\<close>

lemma distinct_add: "distinct xs \<Longrightarrow> distinct (add xs x)"
  by (simp add: add_def)

lemma distinct_foldl_add: "distinct acc \<Longrightarrow> distinct (foldl add acc xs)"
  by (induction xs arbitrary: acc) (simp_all add: distinct_add)

lemma distinct_OrderedSet_init: "distinct (OrderedSet_init xs)"
  by (simp add: OrderedSet_init_def distinct_foldl_add)



lemma index_nth_distinct:
  "distinct xs \<Longrightarrow> i < length xs \<Longrightarrow> index xs (xs ! i) = Some i"
proof (induction xs arbitrary: i)
  case Nil
  then show ?case by simp
next
  case (Cons y ys)
  show ?case
  proof (cases i)
    case 0
    then show ?thesis by simp
  next
    case (Suc j)
    with Cons.prems have "j < length ys" "distinct ys" "ys ! j \<noteq> y"
      by auto
    with Cons.IH[of j] Suc show ?thesis
      by simp
  qed
qed

subsection \<open>Bit positions\<close>

text \<open>
  C1, as stated, fails: \<open>taxon_bitmask\<close> answers from the \<open>clade_mask\<close> cached in the
  object before it looks at the position. \<open>B\<close> is the second member of the set of \<open>A\<close>
  and \<open>B\<close> and gets the mask \<open>2\<close> there; added to a new set it is the member at
  position \<open>0\<close>, and its bitmask in that set is still \<open>2\<close>, not \<open>1 << 0\<close>.
\<close>

theorem taxon_bitmask_stale_cache_counterexample:
  "TaxonSet_init [] [[PyStr ''A'', PyStr ''B'']] no_kwargs = (Inr ts_AB, heap_AB)
   \<and> taxon_bitmask heap_AB ts_AB 1 = (Inr 2, heap_AB_cached)
   \<and> TaxonSet_init heap_AB_cached [] no_kwargs = (Inr ts_empty, heap_AB_cached)
   \<and> add_taxon ts_empty 1 = (Inr (), ts_B)
   \<and> items ts_B ! 0 = 1
   \<and> fst (taxon_bitmask heap_AB_cached ts_B (items ts_B ! 0)) = Inr 2
   \<and> fst (taxon_bitmask heap_AB_cached ts_B (items ts_B ! 0)) \<noteq> Inr (push_bit 0 1)"
  by (simp add: TaxonSet_init_def Taxon_init_def OrderedSet_init_def add_def no_kwargs_def
      taxon_bitmask_def add_taxon_def
      ts_AB_def heap_AB_def heap_AB_cached_def ts_empty_def ts_B_def)

text \<open>
  C1, amended. For every (duplicate-free) set, the member at position \<open>i\<close> has the
  bitmask \<open>1 << i\<close> provided that the object carries no cached mask, or the one of that
  position; \<open>all_taxa_bitmask()\<close> is \<open>(1 << member count) - 1\<close>; and for the set built
  from the labels \<open>["A", "B", "C"]\<close>, on any heap, the bitmasks of \<open>A\<close>, \<open>B\<close> and \<open>C\<close>,
  asked one after the other, are \<open>1\<close>, \<open>2\<close> and \<open>4\<close>, and \<open>all_taxa_bitmask()\<close> is \<open>7\<close>.
\<close>

theorem taxon_bitmask_by_position:
  "(i < length (items self) \<and> distinct (items self)
      \<and> (clade_mask (h ! (items self ! i)) = None
           \<or> clade_mask (h ! (items self ! i)) = Some (push_bit i 1))
     \<longrightarrow> fst (taxon_bitmask h self (items self ! i)) = Inr (push_bit i 1))
   \<and> all_taxa_bitmask self = push_bit (length (items self)) 1 - 1
   \<and> TaxonSet_init h0 [[PyStr ''A'', PyStr ''B'', PyStr ''C'']] no_kwargs
        = (Inr (ts_ABC h0), heap_ABC h0)
   \<and> map (\<lambda>t. label (heap_ABC h0 ! t)) (items (ts_ABC h0))
        = [Some ''A'', Some ''B'', Some ''C'']
   \<and> (let h1 = snd (taxon_bitmask (heap_ABC h0) (ts_ABC h0) (items (ts_ABC h0) ! 0));
           h2 = snd (taxon_bitmask h1 (ts_ABC h0) (items (ts_ABC h0) ! 1))
       in fst (taxon_bitmask (heap_ABC h0) (ts_ABC h0) (items (ts_ABC h0) ! 0)) = Inr 1
        \<and> fst (taxon_bitmask h1 (ts_ABC h0) (items (ts_ABC h0) ! 1)) = Inr 2
        \<and> fst (taxon_bitmask h2 (ts_ABC h0) (items (ts_ABC h0) ! 2)) = Inr 4)
   \<and> all_taxa_bitmask (ts_ABC h0) = 7"
proof -
  have 1: "fst (taxon_bitmask h self (items self ! i)) = Inr (push_bit i 1)"
    if "i < length (items self)" "distinct (items self)"
      "clade_mask (h ! (items self ! i)) = None
         \<or> clade_mask (h ! (items self ! i)) = Some (push_bit i 1)"
    using that by (auto simp: taxon_bitmask_def index_nth_distinct Let_def)
  have 2: "all_taxa_bitmask self = push_bit (length (items self)) 1 - 1"
    by (simp add: all_taxa_bitmask_def)
  have 3: "TaxonSet_init h0 [[PyStr ''A'', PyStr ''B'', PyStr ''C'']] no_kwargs
        = (Inr (ts_ABC h0), heap_ABC h0)"
    by (simp add: TaxonSet_init_def Taxon_init_def OrderedSet_init_def add_def no_kwargs_def
        ts_ABC_def heap_ABC_def)
  have 4: "map (\<lambda>t. label (heap_ABC h0 ! t)) (items (ts_ABC h0))
        = [Some ''A'', Some ''B'', Some ''C'']"
    by (simp add: ts_ABC_def heap_ABC_def nth_append)
  have 5: "(let h1 = snd (taxon_bitmask (heap_ABC h0) (ts_ABC h0) (items (ts_ABC h0) ! 0));
           h2 = snd (taxon_bitmask h1 (ts_ABC h0) (items (ts_ABC h0) ! 1))
       in fst (taxon_bitmask (heap_ABC h0) (ts_ABC h0) (items (ts_ABC h0) ! 0)) = Inr 1
        \<and> fst (taxon_bitmask h1 (ts_ABC h0) (items (ts_ABC h0) ! 1)) = Inr 2
        \<and> fst (taxon_bitmask h2 (ts_ABC h0) (items (ts_ABC h0) ! 2)) = Inr 4)"
    by (simp add: taxon_bitmask_def heap_ABC_def ts_ABC_def nth_append Let_def)
  have 6: "all_taxa_bitmask (ts_ABC h0) = 7"
    by (simp add: all_taxa_bitmask_def ts_ABC_def)
  from 1 2 3 4 5 6 show ?thesis
    by blast
qed

theorem taxon_bitmask_by_position_witness:
  "1 < length (items ts_AB) \<and> distinct (items ts_AB)
   \<and> clade_mask (heap_AB ! (items ts_AB ! 1)) = None
   \<and> fst (taxon_bitmask heap_AB ts_AB (items ts_AB ! 1)) = Inr 2"
proof -
  have hyp: "1 < length (items ts_AB) \<and> distinct (items ts_AB)
     \<and> (clade_mask (heap_AB ! (items ts_AB ! 1)) = None
           \<or> clade_mask (heap_AB ! (items ts_AB ! 1)) = Some (push_bit 1 1))"
    by (simp add: ts_AB_def heap_AB_def)
  have "clade_mask (heap_AB ! (items ts_AB ! 1)) = None"
    by (simp add: ts_AB_def heap_AB_def)
  with hyp taxon_bitmask_by_position [of 1 ts_AB heap_AB] show ?thesis
    by simp
qed




subsection \<open>The lock query\<close>

text \<open>
  C3. The claim: a new set reports not locked, \<open>is_locked\<close> is true after \<open>lock()\<close> and
  false after \<open>unlock()\<close>. The code returns \<open>_is_mutable\<close> itself from
  \<open>get_is_locked\<close>, so the query answers the opposite: a new \<open>TaxonSet()\<close> reports
  locked, a set reports not locked after \<open>lock()\<close> and locked after \<open>unlock()\<close>.
\<close>

theorem get_is_locked_is_inverted:
  "TaxonSet_init h [] no_kwargs = (Inr ts_empty, h)
   \<and> get_is_locked ts_empty = True
   \<and> get_is_locked (lock self) = False
   \<and> get_is_locked (unlock self) = True"
  by (simp add: get_is_locked_def lock_def unlock_def TaxonSet_init_def OrderedSet_init_def
      no_kwargs_def ts_empty_def)

subsection \<open>The constructor and identity\<close>

text \<open>
  C4. The claim (and the docstring of \<open>__init__\<close>): a \<open>Taxon\<close> in the iterable is
  converted into a new, distinct object with the same label. The code: \<open>_to_taxon\<close>
  returns the object it was given, so the member of the new set is the very reference
  \<open>t\<close> that was passed in, and nothing is allocated.
\<close>

theorem TaxonSet_init_keeps_reference:
  "TaxonSet_init h [[PyTaxon t]] kwargs =
     (Inr \<lparr>items = [t], set_oid = kw_oid kwargs, set_label = kw_label kwargs,
           is_mutable = (case kw_is_mutable kwargs of None \<Rightarrow> True | Some b \<Rightarrow> b)\<rparr>, h)"
  by (simp add: TaxonSet_init_def OrderedSet_init_def add_def)

subsection \<open>Complement of a split\<close>

lemma all_taxa_bitmask_mask: "all_taxa_bitmask self = mask (length (items self))"
  by (simp add: all_taxa_bitmask_def mask_eq_exp_minus_1)

lemma complement_take_bit:
  "complement_split_bitmask self split = take_bit (length (items self)) (NOT split)"
  by (simp add: complement_split_bitmask_def all_taxa_bitmask_mask take_bit_eq_mask)

lemma in_range_take_bit:
  fixes m :: int
  assumes "0 \<le> m" "m \<le> mask n"
  shows "take_bit n m = m"
  using assms by (simp add: take_bit_int_eq_self mask_eq_exp_minus_1)

text \<open>
  C6. For every set and every integer \<open>m\<close> with \<open>0 \<le> m \<le> all_taxa_bitmask()\<close>, the
  complement and \<open>m\<close> partition the mask of all taxa: their bitwise or is
  \<open>all_taxa_bitmask()\<close>, their bitwise and is \<open>0\<close>, and the complement is
  \<open>m XOR all_taxa_bitmask()\<close>.
\<close>

theorem complement_split_bitmask_partition:
  assumes "0 \<le> m" and "m \<le> all_taxa_bitmask self"
  shows "(complement_split_bitmask self m OR m) = all_taxa_bitmask self
       \<and> (complement_split_bitmask self m AND m) = 0
       \<and> complement_split_bitmask self m = (m XOR all_taxa_bitmask self)"
proof -
  let ?n = "length (items self)"
  have m: "take_bit ?n m = m"
    using assms by (simp add: in_range_take_bit all_taxa_bitmask_mask)
  have hi: "k < ?n" if "bit m k" for k
  proof -
    from that have "bit (take_bit ?n m) k"
      unfolding m .
    then show ?thesis
      by (simp add: bit_take_bit_iff)
  qed
  have 1: "(complement_split_bitmask self m OR m) = all_taxa_bitmask self"
    unfolding complement_split_bitmask_def all_taxa_bitmask_mask
    by (rule bit_eqI) (use hi in \<open>auto simp: bit_simps\<close>)
  have 2: "(complement_split_bitmask self m AND m) = 0"
    unfolding complement_split_bitmask_def all_taxa_bitmask_mask
    by (rule bit_eqI) (auto simp: bit_simps)
  have 3: "complement_split_bitmask self m = (m XOR all_taxa_bitmask self)"
    unfolding complement_split_bitmask_def all_taxa_bitmask_mask
    by (rule bit_eqI) (use hi in \<open>auto simp: bit_simps\<close>)
  from 1 2 3 show ?thesis by simp
qed

theorem complement_split_bitmask_partition_witness:
  "(0::int) \<le> 5 \<and> 5 \<le> all_taxa_bitmask three_taxa
   \<and> complement_split_bitmask three_taxa 5 = 2
   \<and> (complement_split_bitmask three_taxa 5 OR 5) = all_taxa_bitmask three_taxa
   \<and> (complement_split_bitmask three_taxa 5 AND 5) = 0
   \<and> complement_split_bitmask three_taxa 5 = (5 XOR all_taxa_bitmask three_taxa)"
proof -
  have lo: "(0::int) \<le> 5"
    by simp
  have hi: "5 \<le> all_taxa_bitmask three_taxa"
    by (simp add: all_taxa_bitmask_def three_taxa_def)
  have val: "complement_split_bitmask three_taxa 5 = 2"
    by (simp add: complement_split_bitmask_def all_taxa_bitmask_def three_taxa_def)
  from complement_split_bitmask_partition [OF lo hi] lo hi val show ?thesis
    by simp
qed

text \<open>
  C10. For every set and every nonnegative integer mask, also one with bits at
  positions from the member count on, the complement is \<open>(NOT mask) AND
  all_taxa_bitmask()\<close>, so it lies between \<open>0\<close> and \<open>all_taxa_bitmask()\<close>; and when the
  mask has such an out-of-range bit, the complement differs from
  \<open>mask XOR all_taxa_bitmask()\<close>, which keeps that bit.
\<close>

theorem complement_split_bitmask_in_range:
  assumes "0 \<le> msk"
  shows "complement_split_bitmask self msk = ((NOT msk) AND all_taxa_bitmask self)
       \<and> 0 \<le> complement_split_bitmask self msk
       \<and> complement_split_bitmask self msk \<le> all_taxa_bitmask self
       \<and> ((\<exists>k\<ge>length (items self). bit msk k)
            \<longrightarrow> complement_split_bitmask self msk \<noteq> (msk XOR all_taxa_bitmask self))"
proof -
  let ?n = "length (items self)"
  let ?c = "complement_split_bitmask self msk"
  have 1: "?c = ((NOT msk) AND all_taxa_bitmask self)"
    by (simp add: complement_split_bitmask_def)
  have 2: "0 \<le> ?c"
    by (simp add: complement_take_bit)
  have "?c < 2 ^ ?n"
    by (simp add: complement_take_bit)
  then have 3: "?c \<le> all_taxa_bitmask self"
    by (simp add: all_taxa_bitmask_mask mask_eq_exp_minus_1)
  have 4: "?c \<noteq> (msk XOR all_taxa_bitmask self)" if "?n \<le> k" "bit msk k" for k
  proof
    assume eq: "?c = (msk XOR all_taxa_bitmask self)"
    have "\<not> bit ?c k"
      using that by (simp add: complement_take_bit bit_take_bit_iff)
    moreover have "bit (msk XOR all_taxa_bitmask self) k"
      using that by (simp add: all_taxa_bitmask_mask bit_simps)
    ultimately show False using eq by simp
  qed
  from 1 2 3 4 show ?thesis by blast
qed

theorem complement_split_bitmask_in_range_witness:
  "(0::int) \<le> 9 \<and> (\<exists>k\<ge>length (items three_taxa). bit (9::int) k)
   \<and> complement_split_bitmask three_taxa 9 = 6
   \<and> all_taxa_bitmask three_taxa = 7
   \<and> ((9::int) XOR all_taxa_bitmask three_taxa) = 14
   \<and> complement_split_bitmask three_taxa 9 \<le> all_taxa_bitmask three_taxa
   \<and> complement_split_bitmask three_taxa 9 \<noteq> (9 XOR all_taxa_bitmask three_taxa)"
proof -
  have lo: "(0::int) \<le> 9"
    by simp
  have "length (items three_taxa) \<le> 3 \<and> bit (9::int) 3"
    by (simp add: three_taxa_def)
  then have out: "\<exists>k\<ge>length (items three_taxa). bit (9::int) k"
    by blast
  have val: "complement_split_bitmask three_taxa 9 = 6" "all_taxa_bitmask three_taxa = 7"
    by (simp_all add: complement_split_bitmask_def all_taxa_bitmask_def three_taxa_def)
  have x: "((9::int) XOR 7) = 14"
    by simp
  from complement_split_bitmask_in_range [OF lo, of three_taxa] out lo val x show ?thesis
    by simp
qed

subsection \<open>\<open>clear\<close>\<close>

lemma remove_nth: "i < length xs \<Longrightarrow> remove xs (xs ! i) = Inr (remove1 (xs ! i) xs)"
  by (simp add: remove_def)

lemma clear_loop_step:
  "i < length xs \<Longrightarrow> clear_loop i xs = clear_loop (Suc i) (remove1 (xs ! i) xs)"
  by (subst clear_loop.simps) (simp add: remove_nth)

lemma clear_loop_stop: "\<not> i < length xs \<Longrightarrow> clear_loop i xs = (Inr (), xs)"
  by (subst clear_loop.simps) simp

text \<open>The loop never raises: the element it removes was just read from the list.\<close>

lemma clear_loop_ok: "fst (clear_loop i xs) = Inr ()"
proof (induction i xs rule: clear_loop.induct)
  case (1 i xs)
  show ?case
  proof (cases "i < length xs")
    case True
    then show ?thesis
      using "1.IH"[OF True remove_nth[OF True]] by (simp add: clear_loop_step)
  next
    case False
    then show ?thesis by (simp add: clear_loop_stop)
  qed
qed

text \<open>
  Each round shortens the list by one and moves the position on by one, so the loop
  stops half way: of the \<open>n - i\<close> elements from position \<open>i\<close> on, half are left.
\<close>

lemma clear_loop_length:
  "length (snd (clear_loop i xs)) =
     (if i \<le> length xs then i + (length xs - i) div 2 else length xs)"
proof (induction i xs rule: clear_loop.induct)
  case (1 i xs)
  show ?case
  proof (cases "i < length xs")
    case True
    let ?ys = "remove1 (xs ! i) xs"
    have len: "length ?ys = length xs - 1"
      using True by (simp add: length_remove1)
    have IH: "length (snd (clear_loop (Suc i) ?ys)) =
        (if Suc i \<le> length ?ys then Suc i + (length ?ys - Suc i) div 2 else length ?ys)"
      by (rule "1.IH"[OF True remove_nth[OF True]])
    have step: "clear_loop i xs = clear_loop (Suc i) ?ys"
      by (rule clear_loop_step[OF True])
    show ?thesis
    proof (cases "Suc i \<le> length ?ys")
      case further: True
      then have "length xs - i = (length ?ys - Suc i) + 2"
        using len by arith
      then have "(length xs - i) div 2 = (length ?ys - Suc i) div 2 + 1"
        by simp
      with IH further True show ?thesis
        unfolding step by simp
    next
      case last: False
      with True len have "length xs = Suc i" "length ?ys = i"
        by arith+
      with IH last show ?thesis
        unfolding step by simp
    qed
  next
    case False
    then show ?thesis by (auto simp: clear_loop_stop)
  qed
qed

text \<open>
  C7. The claim (and the docstring of \<open>clear\<close>, "Removes all taxa from this list"): after
  \<open>clear()\<close> on an unlocked set of any size the member sequence is empty. The code
  removes from the list while it iterates over it, so every second member is skipped:
  of \<open>n\<close> members \<open>n div 2\<close> are left. The set of \<open>A\<close> and \<open>B\<close> is unlocked, and
  \<open>clear()\<close> leaves \<open>B\<close> in it, with \<open>all_taxa_bitmask() = 1\<close>.
\<close>

theorem clear_leaves_every_second_member:
  "length (items (snd (clear self))) = length (items self) div 2
   \<and> is_mutable ts_AB
   \<and> clear ts_AB = (Inr (), ts_B)
   \<and> length (items ts_B) = 1
   \<and> all_taxa_bitmask ts_B = 1"
proof -
  have "length (items (snd (clear self))) = length (snd (clear_loop 0 (items self)))"
    by (simp add: clear_def split: prod.splits)
  then have 1: "length (items (snd (clear self))) = length (items self) div 2"
    by (simp add: clear_loop_length)
  have 2: "clear ts_AB = (Inr (), ts_B)"
    by (simp add: clear_def ts_AB_def ts_B_def clear_loop_step clear_loop_stop)
  have 3: "all_taxa_bitmask ts_B = 1" "length (items ts_B) = 1" "is_mutable ts_AB"
    by (simp_all add: all_taxa_bitmask_def ts_B_def ts_AB_def)
  from 1 2 3 show ?thesis by simp
qed

lemma clear_never_raises: "fst (clear self) = Inr ()"
  using clear_loop_ok [of 0 "items self"]
  by (cases "clear_loop 0 (items self)") (simp add: clear_def)

subsection \<open>Mutation of a locked set\<close>

text \<open>
  C2, as stated, fails: \<open>clear\<close> never looks at \<open>_is_mutable\<close> (the constructor notes
  that the constraint is "only enforced at the add_taxon stage"). On the locked set
  whose only member is \<open>B\<close>, \<open>clear()\<close> returns normally and the set is empty afterwards.
\<close>

theorem clear_ignores_lock_counterexample:
  "\<not> is_mutable (lock ts_B)
   \<and> clear (lock ts_B) = (Inr (), lock ts_empty)
   \<and> items (lock ts_B) = [1]
   \<and> items (lock ts_empty) = []"
  by (simp add: lock_def ts_B_def ts_empty_def clear_def clear_loop_step clear_loop_stop)

text \<open>
  C2, amended. On a locked set, \<open>add_taxon\<close> and \<open>new_taxon\<close> each raise the
  immutable-set error and leave the set (and the heap) as it was; \<open>clear\<close> does not consult the lock
  and does not raise.
\<close>

theorem locked_add_taxon_new_taxon_raise:
  assumes "\<not> is_mutable self"
  shows "add_taxon self taxon = (Inl KeyError_immutable, self)
       \<and> new_taxon h self lbl i error_if_label_exists = (Inl KeyError_immutable, h, self)
       \<and> fst (clear self) = Inr ()"
  using assms by (simp add: add_taxon_def new_taxon_def clear_never_raises)

theorem locked_add_taxon_new_taxon_raise_witness:
  "\<not> is_mutable (lock ts_AB)
   \<and> add_taxon (lock ts_AB) 1 = (Inl KeyError_immutable, lock ts_AB)
   \<and> new_taxon heap_AB (lock ts_AB) (Some ''C'') None False
        = (Inl KeyError_immutable, heap_AB, lock ts_AB)
   \<and> fst (clear (lock ts_AB)) = Inr ()"
proof -
  have locked: "\<not> is_mutable (lock ts_AB)"
    by (simp add: lock_def)
  from locked locked_add_taxon_new_taxon_raise [OF locked] show ?thesis
    by simp
qed

text \<open>
  C8. For every locked set with no member of the given label, \<open>require_taxon(label=l)\<close>
  raises the immutable-set error, and the set and the heap are as before: nothing is
  created and nothing is added.
\<close>

theorem require_taxon_locked_raises:
  assumes "\<not> is_mutable self"
    and "\<forall>t\<in>set (items self). label (h ! t) \<noteq> Some l"
  shows "require_taxon h self None (Some (Some l)) = (Inl KeyError_immutable, h, self)"
proof -
  have "get_taxon h self None (Some (Some l)) = Inr None"
    using assms(2) by (simp add: get_taxon_def kwargs_get_def find_None_iff)
  with assms(1) show ?thesis
    by (simp add: require_taxon_def)
qed

theorem require_taxon_locked_raises_witness:
  "\<not> is_mutable (lock ts_AB)
   \<and> items (lock ts_AB) = [0, 1]
   \<and> label (heap_AB ! 0) = Some ''A'' \<and> label (heap_AB ! 1) = Some ''B''
   \<and> require_taxon heap_AB (lock ts_AB) None (Some (Some ''X''))
        = (Inl KeyError_immutable, heap_AB, lock ts_AB)"
proof -
  have locked: "\<not> is_mutable (lock ts_AB)"
    by (simp add: lock_def)
  have members: "items (lock ts_AB) = [0, 1]"
    "label (heap_AB ! 0) = Some ''A''" "label (heap_AB ! 1) = Some ''B''"
    by (simp_all add: lock_def ts_AB_def heap_AB_def)
  then have absent: "\<forall>t\<in>set (items (lock ts_AB)). label (heap_AB ! t) \<noteq> Some ''X''"
    by simp
  from locked members require_taxon_locked_raises [OF locked absent] show ?thesis
    by simp
qed

end
